theory Spec2Isabelle
  imports Main "HOL-Library.Word"
begin

section \<open>Error categories\<close>

text \<open>
  The type \<^verbatim>\<open>ErrorCategory\<close> of \<^verbatim>\<open>common/errors/types.ts\<close>: a union of nineteen string
  literals, in the order of the source. Two of them, \<^verbatim>\<open>'kernelspecnotfound'\<close> and
  \<^verbatim>\<open>'unsupportedKernelSpec'\<close>, carry the comment "Left for historical purposes, not
  used anymore".
\<close>

datatype ErrorCategory =
    cancelled
  | timeout
  | daemon
  | zmq
  | debugger
  | kerneldied
  | kernelpromisetimeout
  | jupytersession
  | jupyterconnection
  | jupyterinstall
  | jupyterselfcert
  | invalidkernel
  | noipykernel
  | fetcherror
  | notinstalled
  | kernelspecnotfound
  | unsupportedKernelSpec
  | sessionDisposed
  | unknown

section \<open>Values, objects and the heap\<close>

text \<open>
  \<^verbatim>\<open>WrappedError.from\<close> and \<^verbatim>\<open>WrappedError.unwrap\<close> take \<^verbatim>\<open>err: any\<close>, so the model has
  JavaScript values: the primitives and references to objects. Numbers are restricted
  to the integers and \<^verbatim>\<open>NaN\<close>; only their truthiness is ever read.
\<close>

type_synonym addr = nat

datatype jsval =
    Undefined
  | Null
  | Bool bool
  | Num int
  | NaN
  | Str string
  | Ref addr

text \<open>What \<^verbatim>\<open>if (v)\<close> and \<^verbatim>\<open>!v\<close> test.\<close>

fun truthy :: "jsval \<Rightarrow> bool" where
  "truthy Undefined = False"
| "truthy Null = False"
| "truthy (Bool b) = b"
| "truthy (Num n) = (n \<noteq> 0)"
| "truthy NaN = False"
| "truthy (Str s) = (s \<noteq> [])"
| "truthy (Ref a) = True"

text \<open>
  The concrete classes below the abstract \<^verbatim>\<open>BaseError\<close>. \<^verbatim>\<open>BaseErrorC\<close> and
  \<^verbatim>\<open>BaseKernelErrorC\<close> stand for subclasses of the two abstract classes that are
  declared in other files; \<^verbatim>\<open>JupyterInstallError\<close> is the one such subclass
  among the sources.
\<close>

datatype Class =
    BaseErrorC
  | BaseKernelErrorC
  | WrappedErrorC
  | WrappedKernelErrorC
  | StdErrErrorC
  | JupyterInstallErrorC

text \<open>\<^verbatim>\<open>class WrappedKernelError extends WrappedError\<close>: the classes whose instances
  satisfy \<^verbatim>\<open>instanceof WrappedError\<close>.\<close>

fun isWrappedErrorClass :: "Class \<Rightarrow> bool" where
  "isWrappedErrorClass WrappedErrorC = True"
| "isWrappedErrorClass WrappedKernelErrorC = True"
| "isWrappedErrorClass BaseErrorC = False"
| "isWrappedErrorClass BaseKernelErrorC = False"
| "isWrappedErrorClass StdErrErrorC = False"
| "isWrappedErrorClass JupyterInstallErrorC = False"

text \<open>\<^verbatim>\<open>KernelConnectionMetadata\<close> is declared in \<^verbatim>\<open>kernels/types\<close>; it is opaque here.\<close>

type_synonym KernelConnectionMetadata = string

text \<open>
  An instance of \<^verbatim>\<open>BaseError\<close>: the fields of \<^verbatim>\<open>Error\<close> (\<^verbatim>\<open>message\<close>, \<^verbatim>\<open>stack\<close>),
  of \<^verbatim>\<open>BaseError\<close> (\<^verbatim>\<open>category\<close>, \<^verbatim>\<open>stdErr\<close>) and of its subclasses. A property an
  object does not have reads as \<^verbatim>\<open>undefined\<close>: \<open>None\<close> for the optional strings,
  \<open>Undefined\<close> for \<^verbatim>\<open>originalException\<close>.

  The code reads the \<^verbatim>\<open>stack\<close> of an object in one place, inside a template literal
  (\<^verbatim>\<open>`${originalException.stack}`\<close>), so an object's \<^verbatim>\<open>stack\<close> is held as what that
  literal prints for it: \<open>Some s\<close> when the property has a value that prints as \<open>s\<close>
  (a string prints as itself, \<^verbatim>\<open>42\<close> as \<^verbatim>\<open>42\<close>, \<^verbatim>\<open>null\<close> as \<^verbatim>\<open>null\<close>), \<open>None\<close>
  when the property is absent or \<^verbatim>\<open>undefined\<close>. \<^verbatim>\<open>Error\<close> declares \<^verbatim>\<open>stack?: string\<close>,
  and the constructors below store strings only. (An object whose \<^verbatim>\<open>stack\<close> cannot be
  read or printed, because a getter or a \<^verbatim>\<open>toString\<close> throws, makes the constructor
  throw: no \<^verbatim>\<open>WrappedError\<close> is constructed from it.)
\<close>

record BaseError =
  cls :: Class
  category :: ErrorCategory
  message :: string
  stack :: "string option"
  stdErr :: "string option"
  originalException :: jsval
  kernelConnectionMetadata :: "KernelConnectionMetadata option"

text \<open>
  Objects: one that is not an \<^verbatim>\<open>Error\<close> (with its \<^verbatim>\<open>stack\<close>, held as above: the
  object \<^verbatim>\<open>{stack: 42}\<close> is \<open>PlainObject (Some ''42'')\<close>, the object \<^verbatim>\<open>{}\<close> is
  \<open>PlainObject None\<close>), an \<^verbatim>\<open>Error\<close> that is not a \<^verbatim>\<open>BaseError\<close> (message and
  stack), and an instance of \<^verbatim>\<open>BaseError\<close>.
\<close>

datatype jsobj =
    PlainObject "string option"
  | ErrorObject string "string option"
  | BaseErrorObject BaseError

text \<open>The heap: an object's address is its index; \<^verbatim>\<open>new\<close> appends.\<close>

type_synonym heap = "jsobj list"

definition lookup :: "heap \<Rightarrow> addr \<Rightarrow> jsobj option" where
  "lookup h a = (if a < length h then Some (h ! a) else None)"

definition alloc :: "heap \<Rightarrow> jsobj \<Rightarrow> jsval \<times> heap" where
  "alloc h ob = (Ref (length h), h @ [ob])"

definition deref :: "heap \<Rightarrow> jsval \<Rightarrow> jsobj option" where
  "deref h v = (case v of Ref a \<Rightarrow> lookup h a | _ \<Rightarrow> None)"

text \<open>\<^verbatim>\<open>v instanceof BaseError\<close>, with the instance when it holds.\<close>

definition asBaseError :: "heap \<Rightarrow> jsval \<Rightarrow> BaseError option" where
  "asBaseError h v = (case deref h v of Some (BaseErrorObject b) \<Rightarrow> Some b | _ \<Rightarrow> None)"

definition instanceofBaseError :: "heap \<Rightarrow> jsval \<Rightarrow> bool" where
  "instanceofBaseError h v = (asBaseError h v \<noteq> None)"

text \<open>
  \<^verbatim>\<open>v.stack\<close> for a truthy \<open>v\<close>, as the text a template literal prints for it;
  \<open>None\<close> is \<^verbatim>\<open>undefined\<close>, which is what the property reads as on a primitive (a
  string, a number, a boolean) and on an object without it.
\<close>

definition get_stack :: "heap \<Rightarrow> jsval \<Rightarrow> string option" where
  "get_stack h v =
     (case deref h v of
        Some (PlainObject s) \<Rightarrow> s
      | Some (ErrorObject m s) \<Rightarrow> s
      | Some (BaseErrorObject b) \<Rightarrow> stack b
      | None \<Rightarrow> None)"

text \<open>The text of \<^verbatim>\<open>`${x}`\<close>: the word \<^verbatim>\<open>undefined\<close> for \<^verbatim>\<open>undefined\<close>, the printed
  value otherwise.\<close>

definition template :: "string option \<Rightarrow> string" where
  "template x = (case x of Some s \<Rightarrow> s | None \<Rightarrow> ''undefined'')"

text \<open>
  What a constructor call reads from its environment: \<^verbatim>\<open>os.EOL\<close>, the stack that
  \<^verbatim>\<open>Error\<close>'s constructor records in the object under construction, and the stack of
  the \<^verbatim>\<open>new Error('')\<close> in \<^verbatim>\<open>WrappedError\<close>'s constructor.
\<close>

record CallSite =
  EOL :: string
  capturedStack :: string
  newErrorStack :: string

section \<open>The error classes\<close>

text \<open>\<^verbatim>\<open>export function getErrorCategory(error?: Error): ErrorCategory\<close>\<close>

definition getErrorCategory :: "heap \<Rightarrow> jsval \<Rightarrow> ErrorCategory" where
  "getErrorCategory h error =
     (if \<not> truthy error then unknown
      else (case asBaseError h error of Some b \<Rightarrow> category b | None \<Rightarrow> unknown))"

text \<open>
  \<^verbatim>\<open>BaseError\<close>'s constructor, run for an object of class \<open>c\<close>:
  \<^verbatim>\<open>constructor(public readonly category: ErrorCategory, message: string) { super(message); }\<close>
\<close>

definition BaseError_constructor :: "Class \<Rightarrow> CallSite \<Rightarrow> ErrorCategory \<Rightarrow> string \<Rightarrow> BaseError" where
  "BaseError_constructor c site cat msg =
     \<lparr>cls = c, category = cat, message = msg, stack = Some (capturedStack site),
      stdErr = None, originalException = Undefined, kernelConnectionMetadata = None\<rparr>"

text \<open>
  \<^verbatim>\<open>WrappedError\<close>'s constructor, run for an object of class \<open>c\<close> (\<^verbatim>\<open>WrappedError\<close>
  itself, or \<^verbatim>\<open>WrappedKernelError\<close> through \<^verbatim>\<open>super\<close>): the call of \<^verbatim>\<open>super\<close>, the
  parameter property \<^verbatim>\<open>originalException\<close>, then the guarded assignment to \<^verbatim>\<open>this.stack\<close>.
\<close>

definition WrappedError_constructor :: "Class \<Rightarrow> CallSite \<Rightarrow> heap \<Rightarrow> string \<Rightarrow> jsval \<Rightarrow> BaseError" where
  "WrappedError_constructor c site h msg orig =
     (let this = (BaseError_constructor c site (getErrorCategory h orig) msg)
                   \<lparr>originalException := orig\<rparr>
      in if truthy orig
         then this\<lparr>stack := Some (newErrorStack site @ EOL site @ EOL site @ template (get_stack h orig))\<rparr>
         else this)"

definition new_WrappedError :: "CallSite \<Rightarrow> heap \<Rightarrow> string \<Rightarrow> jsval \<Rightarrow> jsval \<times> heap" where
  "new_WrappedError site h msg orig =
     alloc h (BaseErrorObject (WrappedError_constructor WrappedErrorC site h msg orig))"

text \<open>\<^verbatim>\<open>public static from(message: string, err: any)\<close>\<close>

definition WrappedError_from :: "CallSite \<Rightarrow> heap \<Rightarrow> string \<Rightarrow> jsval \<Rightarrow> jsval \<times> heap" where
  "WrappedError_from site h msg err =
     (if instanceofBaseError h err then (err, h) else new_WrappedError site h msg err)"

text \<open>\<^verbatim>\<open>public static unwrap(err: any)\<close>\<close>

definition WrappedError_unwrap :: "heap \<Rightarrow> jsval \<Rightarrow> jsval" where
  "WrappedError_unwrap h err =
     (if \<not> truthy err then err
      else (case asBaseError h err of
              Some w \<Rightarrow>
                if isWrappedErrorClass (cls w) \<and> truthy (originalException w)
                   \<and> instanceofBaseError h (originalException w)
                then originalException w
                else err
            | None \<Rightarrow> err))"

text \<open>
  \<^verbatim>\<open>WrappedKernelError\<close>: \<^verbatim>\<open>super(message, originalException)\<close>, then the parameter
  property \<^verbatim>\<open>kernelConnectionMetadata\<close>.
\<close>

definition new_WrappedKernelError ::
    "CallSite \<Rightarrow> heap \<Rightarrow> string \<Rightarrow> jsval \<Rightarrow> KernelConnectionMetadata \<Rightarrow> jsval \<times> heap" where
  "new_WrappedKernelError site h msg orig meta =
     alloc h (BaseErrorObject
       ((WrappedError_constructor WrappedKernelErrorC site h msg orig)
          \<lparr>kernelConnectionMetadata := Some meta\<rparr>))"

text \<open>\<^verbatim>\<open>StdErrError\<close>: \<^verbatim>\<open>constructor(message: string) { super('unknown', message); }\<close>\<close>

definition new_StdErrError :: "CallSite \<Rightarrow> heap \<Rightarrow> string \<Rightarrow> jsval \<times> heap" where
  "new_StdErrError site h msg =
     alloc h (BaseErrorObject (BaseError_constructor StdErrErrorC site unknown msg))"

text \<open>\<^verbatim>\<open>JupyterInstallError\<close>: \<^verbatim>\<open>constructor(message: string) { super('jupyterinstall', message); }\<close>\<close>

definition new_JupyterInstallError :: "CallSite \<Rightarrow> heap \<Rightarrow> string \<Rightarrow> jsval \<times> heap" where
  "new_JupyterInstallError site h msg =
     alloc h (BaseErrorObject (BaseError_constructor JupyterInstallErrorC site jupyterinstall msg))"

section \<open>Daemon creation options\<close>

text \<open>
  \<^verbatim>\<open>PooledDaemonExecutionFactoryCreationOptions | DedicatedDaemonExecutionFactoryCreationOptions\<close>
  as one object: the fields of \<^verbatim>\<open>ExecutionFactoryCreationOptions\<close>, the optional fields
  of the two variants, and the property \<^verbatim>\<open>dedicated\<close>, which an object may lack
  (\<open>None\<close>) or hold with any value. \<^verbatim>\<open>Uri\<close>, \<^verbatim>\<open>PythonEnvironment\<close> and the daemon
  class are declared in other files and opaque here.
\<close>

type_synonym Uri = string
type_synonym PythonEnvironment = string

record DaemonExecutionFactoryCreationOptions =
  resource :: "Uri option"
  interpreter :: PythonEnvironment
  daemonModule :: "string option"
  daemonClass :: "string option"
  daemonCount :: "int option"
  observableDaemonCount :: "int option"
  dedicated :: "jsval option"

text \<open>The property read \<^verbatim>\<open>options.dedicated\<close>.\<close>

definition get_dedicated :: "DaemonExecutionFactoryCreationOptions \<Rightarrow> jsval" where
  "get_dedicated options = (case dedicated options of Some v \<Rightarrow> v | None \<Rightarrow> Undefined)"

text \<open>\<^verbatim>\<open>if ('dedicated' in options && options.dedicated === true) return false; else return true;\<close>\<close>

definition isDaemonPoolCreationOption :: "DaemonExecutionFactoryCreationOptions \<Rightarrow> bool" where
  "isDaemonPoolCreationOption options =
     (if dedicated options \<noteq> None \<and> get_dedicated options = Bool True then False else True)"

section \<open>The taxonomy of the specification\<close>

text \<open>The seventeen kinds that section 7 of the specification lists as its closed set.\<close>

definition spec_taxonomy :: "ErrorCategory list" where
  "spec_taxonomy =
     [cancelled, timeout, daemon, zmq, debugger, kerneldied, kernelpromisetimeout,
      jupytersession, jupyterconnection, jupyterinstall, jupyterselfcert, invalidkernel,
      noipykernel, fetcherror, notinstalled, sessionDisposed, unknown]"

text \<open>
  The ways in which the sources create an instance of \<^verbatim>\<open>BaseError\<close>: the constructors of
  the four concrete classes and \<^verbatim>\<open>WrappedError.from\<close>. (\<^verbatim>\<open>BaseError\<close> and
  \<^verbatim>\<open>BaseKernelError\<close> are abstract, and no class among the sources passes
  \<^verbatim>\<open>'kernelspecnotfound'\<close> or \<^verbatim>\<open>'unsupportedKernelSpec'\<close> to \<^verbatim>\<open>super\<close>.)
\<close>

datatype Construction =
    NewStdErrError CallSite string
  | NewJupyterInstallError CallSite string
  | NewWrappedError CallSite string jsval
  | NewWrappedKernelError CallSite string jsval KernelConnectionMetadata
  | From CallSite string jsval

fun construct :: "Construction \<Rightarrow> heap \<Rightarrow> jsval \<times> heap" where
  "construct (NewStdErrError site msg) h = new_StdErrError site h msg"
| "construct (NewJupyterInstallError site msg) h = new_JupyterInstallError site h msg"
| "construct (NewWrappedError site msg orig) h = new_WrappedError site h msg orig"
| "construct (NewWrappedKernelError site msg orig meta) h =
     new_WrappedKernelError site h msg orig meta"
| "construct (From site msg err) h = WrappedError_from site h msg err"

text \<open>A program run, as far as errors go: constructions one after the other.\<close>

fun constructAll :: "heap \<Rightarrow> Construction list \<Rightarrow> heap" where
  "constructAll h [] = h"
| "constructAll h (c # cs) = constructAll (snd (construct c h)) cs"

text \<open>Every instance of \<^verbatim>\<open>BaseError\<close> in the heap has one of the seventeen kinds.\<close>

definition withinTaxonomy :: "heap \<Rightarrow> bool" where
  "withinTaxonomy h =
     list_all (\<lambda>ob. case ob of BaseErrorObject b \<Rightarrow> category b \<in> set spec_taxonomy | _ \<Rightarrow> True) h"

section \<open>Decoding and running processes\<close>

type_synonym Buffer = "8 word list"

text \<open>Modelled from the spec: \<^verbatim>\<open>BufferDecoder.decode\<close>, of which the sources hold the
  interface \<^verbatim>\<open>IBufferDecoder\<close> only. Section 4.2: it "concatenates raw byte buffers
  and decodes using the specified text encoding; pure, no side effects; must handle
  empty input returning an empty string". The text encodings belong to a library:
  \<open>codec\<close> maps the name of an encoding to its decoding of a byte sequence.
\<close>

definition decode :: "(string \<Rightarrow> 8 word list \<Rightarrow> string) \<Rightarrow> Buffer list \<Rightarrow> string \<Rightarrow> string" where
  "decode codec buffers encoding =
     (let bytes = concat buffers in if bytes = [] then [] else codec encoding bytes)"

text \<open>\<^verbatim>\<open>Output\<close>, \<^verbatim>\<open>SpawnOptions\<close> (the fields it adds to the spawn options of
  \<^verbatim>\<open>child_process\<close>) and \<^verbatim>\<open>ExecutionResult\<close>, as the source declares them.\<close>

datatype Source = from_stdout | from_stderr

record Output =
  source :: Source
  out :: Buffer

record CancellationToken =
  isCancellationRequested :: bool

record SpawnOptions =
  encoding :: "string option"
  token :: "CancellationToken option"
  mergeStdOutErr :: "bool option"
  throwOnStdErr :: "bool option"

record ExecutionResult =
  stdout :: string
  stderr :: "string option"

definition stdoutBuffers :: "Output list \<Rightarrow> Buffer list" where
  "stdoutBuffers chunks = map out (filter (\<lambda>c. source c = from_stdout) chunks)"

definition stderrBuffers :: "Output list \<Rightarrow> Buffer list" where
  "stderrBuffers chunks = map out (filter (\<lambda>c. source c = from_stderr) chunks)"

definition encodingOf :: "SpawnOptions \<Rightarrow> string" where
  "encodingOf options = (case encoding options of Some e \<Rightarrow> e | None \<Rightarrow> ''utf8'')"

definition cancellationRequested :: "SpawnOptions \<Rightarrow> bool" where
  "cancellationRequested options =
     (case token options of Some t \<Rightarrow> isCancellationRequested t | None \<Rightarrow> False)"

text \<open>Modelled from the spec: \<^verbatim>\<open>ProcessService.exec\<close>, of which the sources hold the
  interface \<^verbatim>\<open>IProcessService\<close> only. \<open>chunks\<close> is what the spawned process wrote
  until it ended, in order; the token's state is the one at that moment. The result is
  the outcome of the promise: \<open>Inl\<close> the error it rejects with, \<open>Inr\<close> the value it
  resolves to. Section 4.1, rule by rule:
  \<^item> "throwOnStdErr: if set, any non-empty stderr output causes the promise to fail with
    a StdErrError carrying the stderr text, rather than returning it as a normal result
    field"; section 8 asks this "for all spawn option combinations", so the rule is
    read before those of the other options;
  \<^item> "an attached cancellation token causes the process to be terminated and the
    promise/stream to fail with a cancelled-category error; no partial result is
    returned" (the specification fixes the category of that error only);
  \<^item> "mergeStdOutErr: when set, stderr content is concatenated into the stdout
    stream/field instead of being reported separately".
  The default encoding is not in the specification; no property below depends on it.
\<close>

definition exec ::
    "CallSite \<Rightarrow> (string \<Rightarrow> 8 word list \<Rightarrow> string) \<Rightarrow> SpawnOptions \<Rightarrow> Output list
       \<Rightarrow> BaseError + ExecutionResult" where
  "exec site codec options chunks =
     (let enc = encodingOf options in
      if throwOnStdErr options = Some True \<and> concat (stderrBuffers chunks) \<noteq> []
      then Inl (BaseError_constructor StdErrErrorC site unknown
                  (decode codec (stderrBuffers chunks) enc))
      else if cancellationRequested options
      then Inl (BaseError_constructor BaseErrorC site cancelled [])
      else if mergeStdOutErr options = Some True
      then Inr \<lparr>stdout = decode codec (map out chunks) enc, stderr = None\<rparr>
      else Inr \<lparr>stdout = decode codec (stdoutBuffers chunks) enc,
                stderr = (if stderrBuffers chunks = [] then None
                          else Some (decode codec (stderrBuffers chunks) enc))\<rparr>)"

section \<open>Properties of the heap\<close>

lemma asBaseError_alloc_new:
  "asBaseError (snd (alloc h (BaseErrorObject b))) (fst (alloc h (BaseErrorObject b))) = Some b"
  by (simp add: asBaseError_def deref_def lookup_def alloc_def)

lemma asBaseError_truthy: "asBaseError h v = Some b \<Longrightarrow> truthy v"
  by (cases v) (simp_all add: asBaseError_def deref_def)

lemma getErrorCategory_cases:
  "getErrorCategory h e = (case asBaseError h e of Some b \<Rightarrow> category b | None \<Rightarrow> unknown)"
  by (cases "asBaseError h e") (auto simp: getErrorCategory_def dest: asBaseError_truthy)

section \<open>Wrapping\<close>

text \<open>
  C1. \<^verbatim>\<open>WrappedError.from\<close> is idempotent: when a call has returned the value \<open>e\<close> and
  left the heap \<open>h1\<close>, a second call on \<open>e\<close>, with any message and at any call site,
  returns the reference \<open>e\<close> itself and leaves the heap as it is. No new wrapper is
  allocated, and the object and its category are the same.
\<close>

theorem WrappedError_from_idempotent:
  assumes "WrappedError_from site1 h m1 err = (e, h1)"
  shows "WrappedError_from site2 h1 m2 e = (e, h1)
         \<and> getErrorCategory (snd (WrappedError_from site2 h1 m2 e))
             (fst (WrappedError_from site2 h1 m2 e)) = getErrorCategory h1 e"
proof -
  have "instanceofBaseError h1 e"
  proof (cases "instanceofBaseError h err")
    case True
    with assms show ?thesis by (simp add: WrappedError_from_def)
  next
    case False
    with assms have "(e, h1) = new_WrappedError site1 h m1 err"
      by (simp add: WrappedError_from_def)
    then have "e = fst (new_WrappedError site1 h m1 err)"
      and "h1 = snd (new_WrappedError site1 h m1 err)"
      by (metis fst_conv, metis snd_conv)
    then show ?thesis
      by (simp add: new_WrappedError_def instanceofBaseError_def asBaseError_alloc_new)
  qed
  then have "WrappedError_from site2 h1 m2 e = (e, h1)"
    by (simp add: WrappedError_from_def)
  then show ?thesis by simp
qed

theorem WrappedError_from_idempotent_witness:
  "WrappedError_from \<lparr>EOL = [CHR 0x0A], capturedStack = ''Error: first'', newErrorStack = ''Error''\<rparr>
       [] ''first'' (Str ''boom'')
     = (Ref 0,
        [BaseErrorObject
           \<lparr>cls = WrappedErrorC, category = unknown, message = ''first'',
            stack = Some (''Error'' @ [CHR 0x0A, CHR 0x0A] @ ''undefined''), stdErr = None,
            originalException = Str ''boom'', kernelConnectionMetadata = None\<rparr>])
   \<and> WrappedError_from \<lparr>EOL = [CHR 0x0A], capturedStack = ''Error: second'', newErrorStack = ''Error''\<rparr>
       [BaseErrorObject
           \<lparr>cls = WrappedErrorC, category = unknown, message = ''first'',
            stack = Some (''Error'' @ [CHR 0x0A, CHR 0x0A] @ ''undefined''), stdErr = None,
            originalException = Str ''boom'', kernelConnectionMetadata = None\<rparr>]
       ''second'' (Ref 0)
     = (Ref 0,
        [BaseErrorObject
           \<lparr>cls = WrappedErrorC, category = unknown, message = ''first'',
            stack = Some (''Error'' @ [CHR 0x0A, CHR 0x0A] @ ''undefined''), stdErr = None,
            originalException = Str ''boom'', kernelConnectionMetadata = None\<rparr>])"
proof -
  let ?site = "\<lparr>EOL = [CHR 0x0A], capturedStack = ''Error: first'', newErrorStack = ''Error''\<rparr>"
  let ?w = "\<lparr>cls = WrappedErrorC, category = unknown, message = ''first'',
            stack = Some (''Error'' @ [CHR 0x0A, CHR 0x0A] @ ''undefined''), stdErr = None,
            originalException = Str ''boom'', kernelConnectionMetadata = None\<rparr>"
  have first: "WrappedError_from ?site [] ''first'' (Str ''boom'') = (Ref 0, [BaseErrorObject ?w])"
    by (simp add: WrappedError_from_def new_WrappedError_def WrappedError_constructor_def
        BaseError_constructor_def getErrorCategory_def instanceofBaseError_def asBaseError_def
        deref_def get_stack_def template_def alloc_def)
  from WrappedError_from_idempotent [OF first] first show ?thesis
    by simp
qed

section \<open>The category of an error\<close>

text \<open>
  C5. \<^verbatim>\<open>getErrorCategory\<close> returns the category of its argument when the argument is
  an instance of \<^verbatim>\<open>BaseError\<close>, and \<^verbatim>\<open>'unknown'\<close> for every other value: for
  \<^verbatim>\<open>undefined\<close>, and for any value that is not an instance of \<^verbatim>\<open>BaseError\<close>.
\<close>

theorem getErrorCategory_BaseError_or_unknown:
  "getErrorCategory h e = (case asBaseError h e of Some b \<Rightarrow> category b | None \<Rightarrow> unknown)
   \<and> getErrorCategory h Undefined = unknown"
  by (simp add: getErrorCategory_cases asBaseError_def deref_def)

text \<open>
  C9. The category of a \<^verbatim>\<open>WrappedError\<close> constructed from a message and a value \<open>e\<close> is
  the category of \<open>e\<close> when \<open>e\<close> is an instance of \<^verbatim>\<open>BaseError\<close>, and \<^verbatim>\<open>'unknown'\<close>
  otherwise; this holds of the object the constructor builds and of what
  \<^verbatim>\<open>getErrorCategory\<close> reads from the allocated wrapper.
\<close>

theorem WrappedError_preserves_category:
  "category (WrappedError_constructor c site h m e)
     = (case asBaseError h e of Some b \<Rightarrow> category b | None \<Rightarrow> unknown)
   \<and> getErrorCategory (snd (new_WrappedError site h m e)) (fst (new_WrappedError site h m e))
     = (case asBaseError h e of Some b \<Rightarrow> category b | None \<Rightarrow> unknown)"
proof -
  have ctor: "category (WrappedError_constructor c' site h m e) = getErrorCategory h e" for c'
    by (simp add: WrappedError_constructor_def BaseError_constructor_def Let_def)
  have "getErrorCategory (snd (new_WrappedError site h m e)) (fst (new_WrappedError site h m e))
          = category (WrappedError_constructor WrappedErrorC site h m e)"
    unfolding new_WrappedError_def
    by (simp add: getErrorCategory_cases [of "snd _"] asBaseError_alloc_new)
  with ctor show ?thesis
    by (simp add: getErrorCategory_cases [of h])
qed

text \<open>
  C7. A \<^verbatim>\<open>StdErrError\<close> constructed from any message is an instance of \<^verbatim>\<open>BaseError\<close>
  whose category is \<^verbatim>\<open>'unknown'\<close>.
\<close>

theorem StdErrError_category_unknown:
  "instanceofBaseError (snd (new_StdErrError site h m)) (fst (new_StdErrError site h m))
   \<and> map_option category
       (asBaseError (snd (new_StdErrError site h m)) (fst (new_StdErrError site h m)))
     = Some unknown
   \<and> getErrorCategory (snd (new_StdErrError site h m)) (fst (new_StdErrError site h m)) = unknown"
  unfolding new_StdErrError_def
  by (simp add: instanceofBaseError_def getErrorCategory_cases asBaseError_alloc_new
      BaseError_constructor_def)

section \<open>The stack of a wrapper\<close>

text \<open>
  C6, as the code has it. A \<^verbatim>\<open>WrappedError\<close> keeps the value it was constructed with in
  \<^verbatim>\<open>originalException\<close>. Its constructor tests that value with \<^verbatim>\<open>if (originalException)\<close>:
  when the value is truthy, the stack is a freshly captured call stack, two \<^verbatim>\<open>EOL\<close>s,
  and what the template literal prints for the original's \<^verbatim>\<open>stack\<close> (the stack itself
  when it is a string, the word \<^verbatim>\<open>undefined\<close> when the value has none); when the value
  is falsy (\<^verbatim>\<open>undefined\<close>, but also \<^verbatim>\<open>null\<close>, \<^verbatim>\<open>false\<close>,
  \<^verbatim>\<open>0\<close>, \<^verbatim>\<open>NaN\<close> and the empty string), the stack is the one \<^verbatim>\<open>super(message)\<close>
  left.
\<close>

theorem WrappedError_constructor_stack:
  "originalException (WrappedError_constructor c site h m orig) = orig
   \<and> stack (WrappedError_constructor c site h m orig)
     = (if truthy orig
        then Some (newErrorStack site @ EOL site @ EOL site @ template (get_stack h orig))
        else stack (BaseError_constructor c site (getErrorCategory h orig) m))"
  by (simp add: WrappedError_constructor_def Let_def)

text \<open>
  Three truthy originals and \<^verbatim>\<open>undefined\<close>: an \<^verbatim>\<open>Error\<close> with a stack (object 0), the
  object \<^verbatim>\<open>{stack: 42}\<close> (object 1), the string \<^verbatim>\<open>'boom'\<close>, which has no stack.
\<close>

theorem WrappedError_constructor_stack_witness:
  "stack (WrappedError_constructor WrappedErrorC
            \<lparr>EOL = [CHR 0x0A], capturedStack = ''Error: w'', newErrorStack = ''Error''\<rparr>
            [ErrorObject ''e'' (Some ''Error: e at f''), PlainObject (Some ''42'')] ''w'' (Ref 0))
     = Some (''Error'' @ [CHR 0x0A, CHR 0x0A] @ ''Error: e at f'')
   \<and> stack (WrappedError_constructor WrappedErrorC
            \<lparr>EOL = [CHR 0x0A], capturedStack = ''Error: w'', newErrorStack = ''Error''\<rparr>
            [ErrorObject ''e'' (Some ''Error: e at f''), PlainObject (Some ''42'')] ''w'' (Ref 1))
     = Some (''Error'' @ [CHR 0x0A, CHR 0x0A] @ ''42'')
   \<and> stack (WrappedError_constructor WrappedErrorC
            \<lparr>EOL = [CHR 0x0A], capturedStack = ''Error: w'', newErrorStack = ''Error''\<rparr>
            [ErrorObject ''e'' (Some ''Error: e at f''), PlainObject (Some ''42'')] ''w''
            (Str ''boom''))
     = Some (''Error'' @ [CHR 0x0A, CHR 0x0A] @ ''undefined'')
   \<and> stack (WrappedError_constructor WrappedErrorC
            \<lparr>EOL = [CHR 0x0A], capturedStack = ''Error: w'', newErrorStack = ''Error''\<rparr>
            [ErrorObject ''e'' (Some ''Error: e at f''), PlainObject (Some ''42'')] ''w'' Undefined)
     = Some ''Error: w''"
  by (simp add: WrappedError_constructor_stack BaseError_constructor_def get_stack_def
      template_def deref_def lookup_def)

text \<open>
  Counterexample to C6 as written, which speaks of a defined \<^verbatim>\<open>originalException\<close>.
  The empty string is defined and falsy: \<^verbatim>\<open>WrappedError.from('failed', '')\<close> constructs a wrapper that
  retains it and whose stack is not the concatenation.
\<close>

theorem WrappedError_defined_falsy_counterexample:
  "Str [] \<noteq> Undefined
   \<and> WrappedError_from \<lparr>EOL = [CHR 0x0A], capturedStack = ''Error: failed'', newErrorStack = ''Error''\<rparr>
       [] ''failed'' (Str [])
     = (Ref 0,
        [BaseErrorObject
           (WrappedError_constructor WrappedErrorC
              \<lparr>EOL = [CHR 0x0A], capturedStack = ''Error: failed'', newErrorStack = ''Error''\<rparr>
              [] ''failed'' (Str []))])
   \<and> originalException
       (WrappedError_constructor WrappedErrorC
          \<lparr>EOL = [CHR 0x0A], capturedStack = ''Error: failed'', newErrorStack = ''Error''\<rparr>
          [] ''failed'' (Str [])) = Str []
   \<and> stack
       (WrappedError_constructor WrappedErrorC
          \<lparr>EOL = [CHR 0x0A], capturedStack = ''Error: failed'', newErrorStack = ''Error''\<rparr>
          [] ''failed'' (Str [])) = Some ''Error: failed''
   \<and> stack
       (WrappedError_constructor WrappedErrorC
          \<lparr>EOL = [CHR 0x0A], capturedStack = ''Error: failed'', newErrorStack = ''Error''\<rparr>
          [] ''failed'' (Str []))
     \<noteq> Some (''Error'' @ [CHR 0x0A] @ [CHR 0x0A] @ template (get_stack [] (Str [])))"
  by (simp add: WrappedError_from_def new_WrappedError_def WrappedError_constructor_def
      BaseError_constructor_def instanceofBaseError_def asBaseError_def deref_def
      get_stack_def template_def alloc_def)

section \<open>Unwrapping\<close>

text \<open>
  C10. \<^verbatim>\<open>WrappedError.unwrap\<close> returns \<^verbatim>\<open>e.originalException\<close> exactly when \<open>e\<close> is an
  instance of \<^verbatim>\<open>WrappedError\<close> whose \<^verbatim>\<open>originalException\<close> is an instance of
  \<^verbatim>\<open>BaseError\<close>, and returns \<open>e\<close> itself in every other case (a falsy value, a value
  that is no \<^verbatim>\<open>WrappedError\<close>, a wrapper whose cause is absent or is no
  \<^verbatim>\<open>BaseError\<close>). The result is \<open>e\<close> or the direct cause of \<open>e\<close>: one layer at most
  is removed, and the cause is returned as it is, not unwrapped again.
\<close>

theorem WrappedError_unwrap_one_layer:
  "WrappedError_unwrap h e =
     (case asBaseError h e of
        Some w \<Rightarrow>
          if isWrappedErrorClass (cls w) \<and> instanceofBaseError h (originalException w)
          then originalException w
          else e
      | None \<Rightarrow> e)"
proof (cases "asBaseError h e")
  case None
  then show ?thesis by (simp add: WrappedError_unwrap_def)
next
  case (Some w)
  then have e: "truthy e" by (rule asBaseError_truthy)
  have "instanceofBaseError h (originalException w) \<Longrightarrow> truthy (originalException w)"
    by (auto simp: instanceofBaseError_def dest: asBaseError_truthy)
  with Some e show ?thesis
    by (auto simp: WrappedError_unwrap_def)
qed

text \<open>
  A doubly wrapped error: object 0 is a \<^verbatim>\<open>StdErrError\<close>, object 1 wraps it, object 2
  wraps object 1. Unwrapping object 2 gives object 1, not object 0.
\<close>

theorem WrappedError_unwrap_one_layer_witness:
  "WrappedError_unwrap
     [BaseErrorObject
        \<lparr>cls = StdErrErrorC, category = unknown, message = ''err'', stack = Some ''s0'',
         stdErr = None, originalException = Undefined, kernelConnectionMetadata = None\<rparr>,
      BaseErrorObject
        \<lparr>cls = WrappedErrorC, category = unknown, message = ''inner'', stack = Some ''s1'',
         stdErr = None, originalException = Ref 0, kernelConnectionMetadata = None\<rparr>,
      BaseErrorObject
        \<lparr>cls = WrappedKernelErrorC, category = unknown, message = ''outer'', stack = Some ''s2'',
         stdErr = None, originalException = Ref 1, kernelConnectionMetadata = Some ''k''\<rparr>]
     (Ref 2) = Ref 1"
  by (simp add: WrappedError_unwrap_one_layer asBaseError_def deref_def lookup_def
      instanceofBaseError_def)

section \<open>The closed set of categories\<close>

lemma unknown_in_spec_taxonomy: "unknown \<in> set spec_taxonomy"
  by (simp add: spec_taxonomy_def)

lemma withinTaxonomy_asBaseError:
  assumes "withinTaxonomy h" and "asBaseError h v = Some b"
  shows "category b \<in> set spec_taxonomy"
proof -
  from assms(2) obtain a where a: "a < length h" and ob: "h ! a = BaseErrorObject b"
    by (cases v)
      (auto simp: asBaseError_def deref_def lookup_def split: if_splits option.splits jsobj.splits)
  from assms(1) a have
    "(case h ! a of BaseErrorObject b \<Rightarrow> category b \<in> set spec_taxonomy | _ \<Rightarrow> True)"
    by (simp add: withinTaxonomy_def list_all_length)
  with ob show ?thesis by simp
qed

lemma withinTaxonomy_getErrorCategory:
  "withinTaxonomy h \<Longrightarrow> getErrorCategory h v \<in> set spec_taxonomy"
  by (cases "asBaseError h v")
    (simp_all add: getErrorCategory_cases unknown_in_spec_taxonomy withinTaxonomy_asBaseError)

lemma withinTaxonomy_alloc:
  "withinTaxonomy h \<Longrightarrow> category b \<in> set spec_taxonomy
     \<Longrightarrow> withinTaxonomy (snd (alloc h (BaseErrorObject b)))"
  by (simp add: withinTaxonomy_def alloc_def)

lemma category_WrappedError_constructor:
  "category (WrappedError_constructor c site h m orig) = getErrorCategory h orig"
  by (simp add: WrappedError_constructor_def BaseError_constructor_def Let_def)

lemma withinTaxonomy_construct:
  assumes "withinTaxonomy h"
  shows "withinTaxonomy (snd (construct c h))"
proof (cases c)
  case (NewStdErrError site msg)
  with assms show ?thesis
    by (simp add: new_StdErrError_def withinTaxonomy_alloc BaseError_constructor_def
        unknown_in_spec_taxonomy)
next
  case (NewJupyterInstallError site msg)
  have "jupyterinstall \<in> set spec_taxonomy" by (simp add: spec_taxonomy_def)
  with assms NewJupyterInstallError show ?thesis
    by (simp add: new_JupyterInstallError_def withinTaxonomy_alloc BaseError_constructor_def)
next
  case (NewWrappedError site msg orig)
  with assms show ?thesis
    by (simp add: new_WrappedError_def withinTaxonomy_alloc category_WrappedError_constructor
        withinTaxonomy_getErrorCategory)
next
  case (NewWrappedKernelError site msg orig meta)
  with assms show ?thesis
    by (simp add: new_WrappedKernelError_def withinTaxonomy_alloc
        category_WrappedError_constructor withinTaxonomy_getErrorCategory)
next
  case (From site msg err)
  with assms show ?thesis
    by (simp add: WrappedError_from_def new_WrappedError_def withinTaxonomy_alloc
        category_WrappedError_constructor withinTaxonomy_getErrorCategory)
qed

lemma withinTaxonomy_constructAll:
  "withinTaxonomy h \<Longrightarrow> withinTaxonomy (constructAll h cs)"
  by (induction cs arbitrary: h) (simp_all add: withinTaxonomy_construct)

text \<open>
  C2. The category of every \<^verbatim>\<open>BaseError\<close> value is one of the seventeen kinds of the
  taxonomy, and this is an invariant of the program: the constructors of the sources
  (\<^verbatim>\<open>StdErrError\<close>, \<^verbatim>\<open>JupyterInstallError\<close>, \<^verbatim>\<open>WrappedError\<close>, \<^verbatim>\<open>WrappedKernelError\<close>)
  and \<^verbatim>\<open>WrappedError.from\<close> pass \<^verbatim>\<open>'unknown'\<close>, \<^verbatim>\<open>'jupyterinstall'\<close> or the category of
  an error that exists already. So from a heap whose errors are within the seventeen,
  the empty heap for one, any sequence of constructions leads to a heap whose errors
  are within the seventeen: no value that is an instance of \<^verbatim>\<open>BaseError\<close> carries
  another category, and \<^verbatim>\<open>getErrorCategory\<close> returns no other.
\<close>

theorem category_within_spec_taxonomy:
  assumes "withinTaxonomy h"
  shows "withinTaxonomy (constructAll h cs)
         \<and> (case asBaseError (constructAll h cs) v of
              Some b \<Rightarrow> category b \<in> set spec_taxonomy
            | None \<Rightarrow> True)
         \<and> getErrorCategory (constructAll h cs) v \<in> set spec_taxonomy
         \<and> length spec_taxonomy = 17 \<and> distinct spec_taxonomy"
proof -
  from assms have inv: "withinTaxonomy (constructAll h cs)"
    by (rule withinTaxonomy_constructAll)
  then have "case asBaseError (constructAll h cs) v of
               Some b \<Rightarrow> category b \<in> set spec_taxonomy | None \<Rightarrow> True"
    by (auto split: option.splits dest: withinTaxonomy_asBaseError)
  moreover from inv have "getErrorCategory (constructAll h cs) v \<in> set spec_taxonomy"
    by (rule withinTaxonomy_getErrorCategory)
  moreover have "length spec_taxonomy = 17 \<and> distinct spec_taxonomy"
    by (simp add: spec_taxonomy_def)
  ultimately show ?thesis using inv by simp
qed

text \<open>
  From the empty heap: a \<^verbatim>\<open>JupyterInstallError\<close> (object 0), a \<^verbatim>\<open>WrappedKernelError\<close>
  around it (object 1), \<^verbatim>\<open>WrappedError.from\<close> of a thrown string (object 2) and a
  \<^verbatim>\<open>StdErrError\<close> (object 3). The wrapper has the category of what it wraps.
\<close>

theorem category_within_spec_taxonomy_witness:
  "withinTaxonomy []
   \<and> withinTaxonomy
       (constructAll []
          [NewJupyterInstallError
             \<lparr>EOL = [CHR 0x0A], capturedStack = ''Error: no jupyter'', newErrorStack = ''Error''\<rparr>
             ''no jupyter'',
           NewWrappedKernelError
             \<lparr>EOL = [CHR 0x0A], capturedStack = ''Error: start'', newErrorStack = ''Error''\<rparr>
             ''start'' (Ref 0) ''k'',
           From
             \<lparr>EOL = [CHR 0x0A], capturedStack = ''Error: run'', newErrorStack = ''Error''\<rparr>
             ''run'' (Str ''boom''),
           NewStdErrError
             \<lparr>EOL = [CHR 0x0A], capturedStack = ''Error: exit 1'', newErrorStack = ''Error''\<rparr>
             ''exit 1''])
   \<and> getErrorCategory
       (constructAll []
          [NewJupyterInstallError
             \<lparr>EOL = [CHR 0x0A], capturedStack = ''Error: no jupyter'', newErrorStack = ''Error''\<rparr>
             ''no jupyter'',
           NewWrappedKernelError
             \<lparr>EOL = [CHR 0x0A], capturedStack = ''Error: start'', newErrorStack = ''Error''\<rparr>
             ''start'' (Ref 0) ''k'',
           From
             \<lparr>EOL = [CHR 0x0A], capturedStack = ''Error: run'', newErrorStack = ''Error''\<rparr>
             ''run'' (Str ''boom''),
           NewStdErrError
             \<lparr>EOL = [CHR 0x0A], capturedStack = ''Error: exit 1'', newErrorStack = ''Error''\<rparr>
             ''exit 1''])
       (Ref 1) = jupyterinstall
   \<and> jupyterinstall \<in> set spec_taxonomy"
proof -
  let ?cs = "[NewJupyterInstallError
             \<lparr>EOL = [CHR 0x0A], capturedStack = ''Error: no jupyter'', newErrorStack = ''Error''\<rparr>
             ''no jupyter'',
           NewWrappedKernelError
             \<lparr>EOL = [CHR 0x0A], capturedStack = ''Error: start'', newErrorStack = ''Error''\<rparr>
             ''start'' (Ref 0) ''k'',
           From
             \<lparr>EOL = [CHR 0x0A], capturedStack = ''Error: run'', newErrorStack = ''Error''\<rparr>
             ''run'' (Str ''boom''),
           NewStdErrError
             \<lparr>EOL = [CHR 0x0A], capturedStack = ''Error: exit 1'', newErrorStack = ''Error''\<rparr>
             ''exit 1'']"
  have empty: "withinTaxonomy []" by (simp add: withinTaxonomy_def)
  have run: "getErrorCategory (constructAll [] ?cs) (Ref 1) = jupyterinstall"
    by (simp add: new_JupyterInstallError_def new_WrappedKernelError_def new_StdErrError_def
        WrappedError_from_def new_WrappedError_def WrappedError_constructor_def
        BaseError_constructor_def getErrorCategory_def instanceofBaseError_def asBaseError_def
        deref_def lookup_def alloc_def get_stack_def template_def)
  from category_within_spec_taxonomy [OF empty, of ?cs "Ref 1"] empty run show ?thesis
    by simp
qed

section \<open>Pooled and dedicated daemons\<close>

text \<open>
  C3. \<^verbatim>\<open>isDaemonPoolCreationOption\<close> returns \<^verbatim>\<open>false\<close> exactly when the options have a
  property \<^verbatim>\<open>dedicated\<close> whose value is \<^verbatim>\<open>true\<close>, and \<^verbatim>\<open>true\<close> in every other case
  (the property absent, or present with another value): every options value is pooled
  or dedicated, and never both.
\<close>

theorem isDaemonPoolCreationOption_iff_not_dedicated:
  "(isDaemonPoolCreationOption options = False) = (dedicated options = Some (Bool True))
   \<and> (isDaemonPoolCreationOption options = True) = (dedicated options \<noteq> Some (Bool True))"
  by (cases "dedicated options") (simp_all add: isDaemonPoolCreationOption_def get_dedicated_def)

section \<open>Decoding and standard error\<close>

text \<open>
  C8. \<^verbatim>\<open>BufferDecoder.decode\<close> is a function of its buffers and its encoding (and of
  the text encodings it is given), and it maps the empty list of buffers to the empty
  string, for \<^verbatim>\<open>'utf8'\<close> as for every other encoding.
\<close>

theorem decode_empty:
  "decode codec [] ''utf8'' = [] \<and> decode codec [] enc = []"
  by (simp add: decode_def)

text \<open>
  C4. When \<^verbatim>\<open>exec\<close> is called with \<^verbatim>\<open>throwOnStdErr\<close> set to \<^verbatim>\<open>true\<close> and the process
  writes a non-empty standard error, the promise rejects with a \<^verbatim>\<open>StdErrError\<close> whose
  message is the decoded text of standard error, whatever the other options are; it
  does not resolve to an \<^verbatim>\<open>ExecutionResult\<close>.
\<close>

theorem exec_throwOnStdErr_rejects:
  assumes "throwOnStdErr options = Some True"
    and "concat (stderrBuffers chunks) \<noteq> []"
  shows "exec site codec options chunks
           = Inl (BaseError_constructor StdErrErrorC site unknown
                    (decode codec (stderrBuffers chunks) (encodingOf options)))
         \<and> (\<forall>r. exec site codec options chunks \<noteq> Inr r)
         \<and> cls (projl (exec site codec options chunks)) = StdErrErrorC
         \<and> message (projl (exec site codec options chunks))
             = decode codec (stderrBuffers chunks) (encodingOf options)"
  using assms by (simp add: exec_def BaseError_constructor_def)

theorem exec_throwOnStdErr_rejects_witness:
  "throwOnStdErr \<lparr>encoding = None, token = Some \<lparr>isCancellationRequested = True\<rparr>,
                  mergeStdOutErr = Some True, throwOnStdErr = Some True\<rparr> = Some True
   \<and> concat (stderrBuffers [\<lparr>source = from_stdout, out = [0x6F, 0x6B]\<rparr>,
                             \<lparr>source = from_stderr, out = [0x21]\<rparr>]) \<noteq> []
   \<and> exec \<lparr>EOL = [CHR 0x0A], capturedStack = ''Error: !'', newErrorStack = ''Error''\<rparr>
        (\<lambda>enc bytes. map (\<lambda>b. if b = 0x21 then CHR ''!'' else CHR ''?'') bytes)
        \<lparr>encoding = None, token = Some \<lparr>isCancellationRequested = True\<rparr>,
         mergeStdOutErr = Some True, throwOnStdErr = Some True\<rparr>
        [\<lparr>source = from_stdout, out = [0x6F, 0x6B]\<rparr>, \<lparr>source = from_stderr, out = [0x21]\<rparr>]
     = Inl \<lparr>cls = StdErrErrorC, category = unknown, message = ''!'',
            stack = Some ''Error: !'', stdErr = None, originalException = Undefined,
            kernelConnectionMetadata = None\<rparr>"
proof -
  let ?options = "\<lparr>encoding = None, token = Some \<lparr>isCancellationRequested = True\<rparr>,
                  mergeStdOutErr = Some True, throwOnStdErr = Some True\<rparr>"
  let ?chunks = "[\<lparr>source = from_stdout, out = [0x6F, 0x6B :: 8 word]\<rparr>,
                 \<lparr>source = from_stderr, out = [0x21]\<rparr>]"
  have a: "throwOnStdErr ?options = Some True" by simp
  have b: "concat (stderrBuffers ?chunks) \<noteq> []" by (simp add: stderrBuffers_def)
  from exec_throwOnStdErr_rejects [OF a b] a b show ?thesis
    by (simp add: stderrBuffers_def decode_def encodingOf_def BaseError_constructor_def)
qed

end
